theory Spec2Isabelle
  imports Main
begin

section \<open>The document tree\<close>

text \<open>
  The plugin works on the browser's document. Nodes are addressed by natural numbers
  and the document is a store of node records. Each record keeps what
  \<^verbatim>\<open>src/plugin/syringe/index.ts\<close> reads or writes: node type and name, the parent
  pointer, attributes, the class list, the data of a text node, and the
  properties \<^verbatim>\<open>type\<close>, \<^verbatim>\<open>value\<close> and \<^verbatim>\<open>style.display\<close>.

  Assigning \<^verbatim>\<open>innerText\<close>, \<^verbatim>\<open>innerHTML\<close> or \<^verbatim>\<open>textContent\<close> to an element
  removes its children and lets the browser build new ones from the assigned string. The
  new children are not represented in the store; the assigned string is kept in the
  field \<open>inner\<close> instead. The order of siblings is not represented: nothing in the
  file reads it.
\<close>

datatype nodeType = ELEMENT_NODE | TEXT_NODE | DOCUMENT_NODE | OTHER_NODE

datatype inner = FromChildren | InnerText string | InnerHTML string | TextContent string

record node =
  nodeType :: nodeType
  nodeName :: string
  parentNode :: "nat option"
  attrs :: "string \<rightharpoonup> string"
  classList :: "string list"
  textData :: string
  inner :: inner
  inputType :: string
  inputValue :: string
  styleDisplay :: string

type_synonym dom = "nat \<Rightarrow> node"

definition parentElement :: "dom \<Rightarrow> nat \<Rightarrow> nat option" where
  "parentElement d n =
     (case parentNode (d n) of
        None \<Rightarrow> None
      | Some p \<Rightarrow> if nodeType (d p) = ELEMENT_NODE then Some p else None)"

definition hasAttribute :: "node \<Rightarrow> string \<Rightarrow> bool" where
  "hasAttribute e a = (attrs e a \<noteq> None)"

text \<open>A reflected string property (\<^verbatim>\<open>id\<close>, \<^verbatim>\<open>title\<close>, \<^verbatim>\<open>placeholder\<close>,
  \<^verbatim>\<open>label\<close>) reads as the empty string when the attribute is missing.\<close>

definition reflected :: "node \<Rightarrow> string \<Rightarrow> string" where
  "reflected e a = (case attrs e a of None \<Rightarrow> [] | Some v \<Rightarrow> v)"

definition setAttribute :: "nat \<Rightarrow> string \<Rightarrow> string \<Rightarrow> dom \<Rightarrow> dom" where
  "setAttribute p a v d = d(p := (d p)\<lparr>attrs := (attrs (d p))(a \<mapsto> v)\<rparr>)"

text \<open>Replacing the content of element \<open>p\<close>: every node whose parent is \<open>p\<close> is
  detached, and \<open>p\<close> keeps the assigned content.\<close>

definition replaceContent :: "nat \<Rightarrow> inner \<Rightarrow> dom \<Rightarrow> dom" where
  "replaceContent p c d =
     (\<lambda>n. if n = p
          then (d p)\<lparr>parentNode := (if parentNode (d p) = Some p then None else parentNode (d p)),
                     inner := c\<rparr>
          else if parentNode (d n) = Some p then (d n)\<lparr>parentNode := None\<rparr>
          else d n)"

section \<open>Strings as JavaScript handles them\<close>

fun split_js :: "char \<Rightarrow> string \<Rightarrow> string list" where
  "split_js c [] = [[]]"
| "split_js c (x # xs) =
     (if x = c then [] # split_js c xs
      else (case split_js c xs of [] \<Rightarrow> [[x]] | y # ys \<Rightarrow> (x # y) # ys))"

text \<open>Array destructuring \<^verbatim>\<open>[a, b] = xs\<close>: a missing position is \<^verbatim>\<open>undefined\<close>.\<close>

definition at_js :: "'a list \<Rightarrow> nat \<Rightarrow> 'a option" where
  "at_js xs i = (if i < length xs then Some (xs ! i) else None)"

definition underscores_to_spaces :: "string \<Rightarrow> string" where
  "underscores_to_spaces s = map (\<lambda>c. if c = CHR ''_'' then CHR '' '' else c) s"

section \<open>Configuration, collaborators and the plugin state\<close>

text \<open>The fields of \<^verbatim>\<open>ConfigData\<close> the plugin reads: \<^verbatim>\<open>translateTag\<close>,
  \<^verbatim>\<open>translateUi\<close>, \<^verbatim>\<open>showIcon\<close> and \<^verbatim>\<open>introduceImageLevel\<close> (prefixed, as
  two of the names are also methods of the service).\<close>

record ConfigData =
  cfgTranslateTag :: bool
  cfgTranslateUi :: bool
  cfgShowIcon :: bool
  cfgIntroduceImageLevel :: nat

text \<open>
  The services the plugin is constructed with are not part of the file; they are taken as
  parameters. \<open>tagging_fullKey\<close> receives the namespace and the key, the key being
  \<^verbatim>\<open>undefined\<close> when a title has no colon. \<open>Date_parse\<close> is the built-in
  \<^verbatim>\<open>Date.parse\<close> (\<open>None\<close> is \<^verbatim>\<open>NaN\<close>), \<open>time_diff\<close> is
  \<^verbatim>\<open>time.diff(date, undefined, DateTime.hour)\<close>. \<open>regexReplacements\<close> holds, for
  each rule of the UI dictionary in order, the effect of \<^verbatim>\<open>String.replace\<close> with that
  rule. \<open>pageCountReplace\<close> is \<^verbatim>\<open>String.replace\<close> with the page-count pattern of
  \<^verbatim>\<open>translateUi\<close>, \<open>elementText\<close> the \<^verbatim>\<open>textContent\<close> getter on elements, and
  \<open>hostIsEx\<close> tells whether \<^verbatim>\<open>location.host\<close> includes \<^verbatim>\<open>exhentai\<close>.
\<close>

record env =
  tagging_fullKey :: "string \<Rightarrow> string option \<Rightarrow> string"
  tagging_markImagesAndEmoji :: "string \<Rightarrow> string"
  tagging_removeImagesAndEmoji :: "string \<Rightarrow> string"
  Date_parse :: "string \<Rightarrow> int option"
  time_diff :: "int \<Rightarrow> string"
  plainReplacements :: "string \<rightharpoonup> string"
  regexReplacements :: "(string \<Rightarrow> string) list"
  pageCountReplace :: "string \<Rightarrow> string"
  elementText :: "dom \<Rightarrow> nat \<Rightarrow> string"
  hostIsEx :: bool

record TagNodeRef =
  parent :: nat
  fullKey :: string
  original :: string

text \<open>
  The state of the \<^verbatim>\<open>Syringe\<close> service together with the document it mutates.
  \<open>fresh\<close> is the next unused node number (for \<^verbatim>\<open>createElement\<close>),
  \<open>bodyRef\<close> is what \<^verbatim>\<open>document.querySelector('body')\<close> returns,
  and \<open>storedConfig\<close> is the value last written with \<^verbatim>\<open>storage.set('config', _)\<close>.
  \<open>documentEnd\<close> is the flag set by the \<^verbatim>\<open>DOMContentLoaded\<close> listener; the
  \<^verbatim>\<open>MutationObserver\<close> callback and the walks of a \<^verbatim>\<open>NodeIterator\<close>, which read
  the live tree of the browser, are not modelled.
\<close>

record syringe =
  nodes :: dom
  fresh :: nat
  bodyRef :: "nat option"
  tagMap :: "(string \<rightharpoonup> string) option"
  tags :: "TagNodeRef list"
  documentEnd :: bool
  config :: ConfigData
  storedConfig :: "ConfigData option"

section \<open>TagNodeRef\<close>

definition ATTR :: string where
  "ATTR = ''ehs-tag''"

text \<open>The key computed in \<^verbatim>\<open>TagNodeRef.create\<close> from the title and the id of the
  container; \<open>None\<close> is \<^verbatim>\<open>undefined\<close>.\<close>

definition fullKeyCandidate :: "env \<Rightarrow> string \<Rightarrow> string \<Rightarrow> string option" where
  "fullKeyCandidate E aTitle aId =
     (if aTitle \<noteq> [] then
        (let parts = split_js CHR '':'' aTitle
         in Some (tagging_fullKey E (hd parts) (at_js parts 1)))
      else if aId \<noteq> [] then
        (let ident = (if take 3 aId = ''ta_'' then drop 3 aId else aId);
             parts = split_js CHR '':'' (underscores_to_spaces ident)
         in (case at_js parts 1 of
               None \<Rightarrow> Some (tagging_fullKey E [] (Some (hd parts)))
             | Some k \<Rightarrow>
                 if k \<noteq> [] then Some (tagging_fullKey E (hd parts) (Some k))
                 else Some (tagging_fullKey E [] (Some (hd parts)))))
      else None)"

text \<open>The private constructor: it marks the container.\<close>

definition newTagNodeRef :: "nat \<Rightarrow> string \<Rightarrow> string \<Rightarrow> dom \<Rightarrow> dom" where
  "newTagNodeRef p k txt d =
     (let d1 = setAttribute p ATTR txt d;
          d2 = setAttribute p ''lang'' ''en'' d1
      in if \<not> hasAttribute (d2 p) ''title'' then setAttribute p ''title'' k d2 else d2)"

datatype createResult = Created TagNodeRef | Plain bool

definition create :: "env \<Rightarrow> nat \<Rightarrow> syringe \<Rightarrow> createResult \<times> syringe" where
  "create E n s =
     (case parentElement (nodes s) n of
        None \<Rightarrow> (Plain True, s)
      | Some p \<Rightarrow>
          if hasAttribute (nodes s p) ATTR then (Plain True, s)
          else
            (case fullKeyCandidate E (reflected (nodes s p) ''title'') (reflected (nodes s p) ''id'') of
               None \<Rightarrow> (Plain False, s)
             | Some k \<Rightarrow>
                 if k = [] then (Plain False, s)
                 else
                   (let txt = textData (nodes s n)
                    in (Created \<lparr>parent = p, fullKey = k, original = txt\<rparr>,
                        s\<lparr>nodes := newTagNodeRef p k txt (nodes s)\<rparr>))))"

definition alive :: "syringe \<Rightarrow> TagNodeRef \<Rightarrow> bool" where
  "alive s t = (parentElement (nodes s) (parent t) \<noteq> None)"

text \<open>The value written by a successful \<^verbatim>\<open>translate()\<close>.\<close>

definition translatedValue :: "env \<Rightarrow> ConfigData \<Rightarrow> TagNodeRef \<Rightarrow> string \<Rightarrow> string" where
  "translatedValue E c t v =
     (let v1 = (if cfgShowIcon c then tagging_markImagesAndEmoji E v
                else tagging_removeImagesAndEmoji E v)
      in if 1 < length (original t) \<and> original t ! 1 = CHR '':''
         then original t ! 0 # CHR '':'' # v1 else v1)"

definition translate :: "env \<Rightarrow> TagNodeRef \<Rightarrow> syringe \<Rightarrow> bool \<times> syringe" where
  "translate E t s =
     (if \<not> alive s t then (True, s)
      else if \<not> cfgTranslateTag (config s) then
        (True, s\<lparr>nodes := setAttribute (parent t) ''lang'' ''en''
                            (replaceContent (parent t) (InnerText (original t)) (nodes s))\<rparr>)
      else
        (case tagMap s of
           None \<Rightarrow> (False, s)
         | Some m \<Rightarrow>
             (case m (fullKey t) of
                None \<Rightarrow> (False, s)
              | Some v \<Rightarrow>
                  if v = [] then (False, s)
                  else
                    (True, s\<lparr>nodes := setAttribute (parent t) ''lang'' ''cmn-Hans''
                               (replaceContent (parent t)
                                  (InnerHTML (translatedValue E (config s) t v)) (nodes s))\<rparr>))))"

section \<open>The Syringe service\<close>

definition translateTags :: "env \<Rightarrow> syringe \<Rightarrow> syringe" where
  "translateTags E s =
     (let live = filter (alive s) (tags s)
      in fold (\<lambda>t st. snd (translate E t st)) live (s\<lparr>tags := live\<rparr>))"

definition skipNode :: "string list" where
  "skipNode = [''TITLE'', ''LINK'', ''META'', ''HEAD'', ''SCRIPT'', ''BR'', ''HR'', ''STYLE'', ''MARK'']"

subsection \<open>Body attributes\<close>

text \<open>\<^verbatim>\<open>classList.add\<close> and the decimal rendering of a number in a template string.\<close>

definition classAdd :: "string \<Rightarrow> string list \<Rightarrow> string list" where
  "classAdd c cs = (if c \<in> set cs then cs else cs @ [c])"

function show_nat :: "nat \<Rightarrow> string" where
  "show_nat n =
     (if n < 10 then [''0123456789'' ! n]
      else show_nat (n div 10) @ [''0123456789'' ! (n mod 10)])"
  by pat_completeness auto
termination
  by (relation "measure id") auto

definition setBodyAttrs :: "env \<Rightarrow> nat \<Rightarrow> syringe \<Rightarrow> syringe" where
  "setBodyAttrs E b s =
     (let c = config s;
          e = nodes s b;
          cl1 = classAdd (if \<not> hostIsEx E then ''eh'' else ''ex'') (classList e);
          cl2 = filter (\<lambda>k. take 3 k \<noteq> ''ehs'') cl1;
          cl3 = (if \<not> cfgShowIcon c then classAdd ''ehs-hide-icon'' cl2 else cl2);
          cl4 = (if cfgTranslateTag c then classAdd ''ehs-translate-tag'' cl3 else cl3);
          lang = (if cfgTranslateUi c then ''cmn-Hans'' else ''en'');
          cl5 = classAdd (''ehs-image-level-'' @ show_nat (cfgIntroduceImageLevel c)) cl4
      in s\<lparr>nodes := (nodes s)(b := e\<lparr>attrs := (attrs e)(''lang'' \<mapsto> lang), classList := cl5\<rparr>)\<rparr>)"

definition updateConfig :: "env \<Rightarrow> ConfigData \<Rightarrow> syringe \<Rightarrow> syringe" where
  "updateConfig E c s =
     (let s1 = s\<lparr>config := c, storedConfig := Some c\<rparr>;
          s2 = (case bodyRef s1 of None \<Rightarrow> s1 | Some b \<Rightarrow> setBodyAttrs E b s1)
      in if tagMap s2 \<noteq> None then translateTags E s2 else s2)"

text \<open>The listener registered with \<^verbatim>\<open>storage.async.on('config', _)\<close>; the new value may
  be missing.\<close>

definition onConfig :: "env \<Rightarrow> ConfigData option \<Rightarrow> syringe \<Rightarrow> syringe" where
  "onConfig E nv s = (case nv of None \<Rightarrow> s | Some c \<Rightarrow> updateConfig E c s)"

subsection \<open>UI text\<close>

definition isDigit :: "char \<Rightarrow> bool" where
  "isDigit c = (c \<in> set ''0123456789'')"

definition isWordChar :: "char \<Rightarrow> bool" where
  "isWordChar c =
     (c \<in> set ''abcdefghijklmnopqrstuvwxyzABCDEFGHIJKLMNOPQRSTUVWXYZ0123456789_'')"

text \<open>The fixed-width pieces of the two timestamp patterns: a digit or a literal.\<close>

datatype atom = D | L char

fun matchAtoms :: "atom list \<Rightarrow> string \<Rightarrow> bool" where
  "matchAtoms [] s = True"
| "matchAtoms (a # as) [] = False"
| "matchAtoms (D # as) (c # cs) = (isDigit c \<and> matchAtoms as cs)"
| "matchAtoms (L x # as) (c # cs) = (c = x \<and> matchAtoms as cs)"

text \<open>\<^verbatim>\<open>/\d\d\d\d-\d\d-\d\d \d\d:\d\d/\<close> at the start of \<open>s\<close>: the length of the match.\<close>

definition isoAtoms :: "atom list" where
  "isoAtoms = [D, D, D, D, L CHR ''-'', D, D, L CHR ''-'', D, D, L CHR '' '', D, D, L CHR '':'', D, D]"

definition matchIso :: "string \<Rightarrow> nat option" where
  "matchIso s = (if matchAtoms isoAtoms s then Some 16 else None)"

text \<open>\<^verbatim>\<open>/\d\d \w{2,10} \d\d\d\d, \d\d:\d\d/\<close> at the start of \<open>s\<close>. The word
  characters are followed by a space, which is no word character, so the pattern matches
  exactly when the whole run of word characters has between 2 and 10 of them.\<close>

definition matchLong :: "string \<Rightarrow> nat option" where
  "matchLong s =
     (if matchAtoms [D, D, L CHR '' ''] s then
        (let k = length (takeWhile isWordChar (drop 3 s))
         in if 2 \<le> k \<and> k \<le> 10 \<and>
               matchAtoms [L CHR '' '', D, D, D, D, L CHR '','', L CHR '' '', D, D, L CHR '':'', D, D]
                 (drop (3 + k) s)
            then Some (3 + k + 12) else None)
      else None)"

text \<open>\<^verbatim>\<open>String.replace\<close> with a global pattern and a callback: matches are taken from
  left to right and do not overlap. \<open>skip\<close> counts the characters still covered by the
  last match.\<close>

fun replaceGlobal :: "(string \<Rightarrow> nat option) \<Rightarrow> (string \<Rightarrow> string) \<Rightarrow> nat \<Rightarrow> string \<Rightarrow> string" where
  "replaceGlobal m f skip [] = []"
| "replaceGlobal m f (Suc k) (c # cs) = replaceGlobal m f k cs"
| "replaceGlobal m f 0 (c # cs) =
     (case m (c # cs) of
        None \<Rightarrow> c # replaceGlobal m f 0 cs
      | Some n \<Rightarrow> f (take n (c # cs)) @ replaceGlobal m f (n - 1) cs)"

text \<open>The callbacks: \<^verbatim>\<open>if (!date) return t\<close> keeps the match when the parse is
  \<^verbatim>\<open>NaN\<close> and when it is 0.\<close>

definition relativeTime :: "env \<Rightarrow> string \<Rightarrow> string \<Rightarrow> string" where
  "relativeTime E suffix t =
     (case Date_parse E (t @ suffix) of
        None \<Rightarrow> t
      | Some date \<Rightarrow> if date = 0 then t else time_diff E date)"

definition translateUiText :: "env \<Rightarrow> string \<Rightarrow> string option" where
  "translateUiText E txt =
     (case plainReplacements E txt of
        Some plain \<Rightarrow> Some plain
      | None \<Rightarrow>
          (let rep1 = fold (\<lambda>rule r. rule r) (regexReplacements E) txt;
               rep2 = replaceGlobal matchIso (relativeTime E ''Z'') 0 rep1;
               rep3 = replaceGlobal matchLong (relativeTime E '' UTC'') 0 rep2
           in if rep3 \<noteq> txt then Some rep3 else None))"

subsection \<open>UI nodes\<close>

definition isText :: "node \<Rightarrow> bool" where
  "isText e = (nodeType e = TEXT_NODE)"

text \<open>\<^verbatim>\<open>isNode(node, name)\<close>, with the name already in upper case.\<close>

definition isNode :: "node \<Rightarrow> string \<Rightarrow> bool" where
  "isNode e name = (nodeName e = name)"

definition blankElement :: "string \<Rightarrow> node" where
  "blankElement name =
     \<lparr>nodeType = ELEMENT_NODE, nodeName = name, parentNode = None, attrs = Map.empty,
      classList = [], textData = [], inner = FromChildren, inputType = [], inputValue = [],
      styleDisplay = []\<rparr>"

text \<open>\<^verbatim>\<open>document.createElement\<close> followed by the assignment of \<^verbatim>\<open>textContent\<close>:
  the new, detached element is numbered \<open>fresh s\<close>.\<close>

definition createElementWithText :: "string \<Rightarrow> string \<Rightarrow> syringe \<Rightarrow> nat \<times> syringe" where
  "createElementWithText name txt s =
     (fresh s,
      s\<lparr>nodes := (nodes s)(fresh s := (blankElement name)\<lparr>inner := TextContent txt\<rparr>),
        fresh := Suc (fresh s)\<rparr>)"

definition updNode :: "nat \<Rightarrow> (node \<Rightarrow> node) \<Rightarrow> syringe \<Rightarrow> syringe" where
  "updNode n f s = s\<lparr>nodes := (nodes s)(n := f (nodes s n))\<rparr>"

text \<open>\<^verbatim>\<open>par.insertBefore(new, _)\<close>: the new node becomes a child of \<open>par\<close>.\<close>

definition insertInto :: "nat \<Rightarrow> nat \<Rightarrow> syringe \<Rightarrow> syringe" where
  "insertInto par new s = updNode new (\<lambda>e. e\<lparr>parentNode := Some par\<rparr>) s"

definition grandParentId :: "dom \<Rightarrow> nat \<Rightarrow> string option" where
  "grandParentId d n =
     (case parentElement d n of
        None \<Rightarrow> None
      | Some p \<Rightarrow> (case parentElement d p of
                    None \<Rightarrow> None
                  | Some g \<Rightarrow> Some (reflected (d g) ''id'')))"

text \<open>The branches of \<^verbatim>\<open>translateUi\<close>, one definition each: a text node, an input or
  textarea, an option group, and the four blocks that follow for other elements.\<close>

definition uiTextNode :: "env \<Rightarrow> nat \<Rightarrow> syringe \<Rightarrow> syringe" where
  "uiTextNode E n s =
     (case translateUiText E (textData (nodes s n)) of
        None \<Rightarrow> s
      | Some translation \<Rightarrow> updNode n (\<lambda>x. x\<lparr>textData := translation\<rparr>) s)"

definition uiInput :: "env \<Rightarrow> nat \<Rightarrow> syringe \<Rightarrow> syringe" where
  "uiInput E n s =
     (let s1 =
            (if reflected (nodes s n) ''placeholder'' \<noteq> [] then
               (case translateUiText E (reflected (nodes s n) ''placeholder'') of
                  None \<Rightarrow> s
                | Some translation \<Rightarrow>
                    updNode n (\<lambda>x. x\<lparr>attrs := (attrs x)(''placeholder'' \<mapsto> translation)\<rparr>) s)
             else s)
      in if inputType (nodes s1 n) = ''submit'' \<or> inputType (nodes s1 n) = ''button'' then
           (case translateUiText E (inputValue (nodes s1 n)) of
              None \<Rightarrow> s1
            | Some translation \<Rightarrow> updNode n (\<lambda>x. x\<lparr>inputValue := translation\<rparr>) s1)
         else s1)"

definition uiOptgroup :: "env \<Rightarrow> nat \<Rightarrow> syringe \<Rightarrow> syringe" where
  "uiOptgroup E n s =
     (case translateUiText E (reflected (nodes s n) ''label'') of
        None \<Rightarrow> s
      | Some translation \<Rightarrow>
          updNode n (\<lambda>x. x\<lparr>attrs := (attrs x)(''label'' \<mapsto> translation)\<rparr>) s)"

text \<open>A link of the navigation bar \<^verbatim>\<open>nb\<close>.\<close>

definition uiNavLink :: "env \<Rightarrow> nat \<Rightarrow> syringe \<Rightarrow> syringe" where
  "uiNavLink E n s =
     (if isNode (nodes s n) ''A'' \<and> grandParentId (nodes s) n = Some ''nb'' then
        (case translateUiText E (elementText E (nodes s) n) of
           None \<Rightarrow> s
         | Some translation \<Rightarrow> s\<lparr>nodes := replaceContent n (TextContent translation) (nodes s)\<rparr>)
      else s)"

text \<open>The page count \<^verbatim>\<open>p.gpc\<close>: a translated copy is inserted before the paragraph,
  which is hidden.\<close>

definition uiPageCount :: "env \<Rightarrow> nat \<Rightarrow> syringe \<Rightarrow> syringe" where
  "uiPageCount E n s =
     (if isNode (nodes s n) ''P'' \<and> ''gpc'' \<in> set (classList (nodes s n)) then
        (let (p, t1) = createElementWithText ''P'' (pageCountReplace E (elementText E (nodes s) n)) s;
             t2 = updNode p (\<lambda>x. x\<lparr>classList := [''gpc-translate'']\<rparr>) t1;
             t3 = (case parentElement (nodes t2) n of
                     None \<Rightarrow> t2
                   | Some par \<Rightarrow> insertInto par p t2)
         in updNode n (\<lambda>x. x\<lparr>styleDisplay := ''none''\<rparr>) t3)
      else s)"

text \<open>\<^verbatim>\<open>div#gdd\<close>: a hidden copy of the text is appended to the element.\<close>

definition uiDownloader :: "env \<Rightarrow> nat \<Rightarrow> syringe \<Rightarrow> syringe" where
  "uiDownloader E n s =
     (if reflected (nodes s n) ''id'' = ''gdd'' then
        (let (dv, t1) = createElementWithText ''DIV'' (elementText E (nodes s) n) s;
             t2 = updNode dv (\<lambda>x. x\<lparr>styleDisplay := ''none''\<rparr>) t1
         in insertInto n dv t2)
      else s)"

text \<open>\<^verbatim>\<open>div.ths.nosel\<close> in \<^verbatim>\<open>gdo4\<close>: a hidden copy is inserted before the element.\<close>

definition uiBookmark :: "env \<Rightarrow> nat \<Rightarrow> syringe \<Rightarrow> syringe" where
  "uiBookmark E n s =
     (case parentElement (nodes s) n of
        None \<Rightarrow> s
      | Some par \<Rightarrow>
          if reflected (nodes s par) ''id'' = ''gdo4'' \<and>
             ''ths'' \<in> set (classList (nodes s n)) \<and> ''nosel'' \<in> set (classList (nodes s n))
          then
            (let (dv, t1) = createElementWithText ''DIV'' (elementText E (nodes s) n) s;
                 t2 = updNode dv (\<lambda>x. x\<lparr>styleDisplay := ''none''\<rparr>) t1;
                 t3 = updNode dv (\<lambda>x. x\<lparr>classList := [''ths'']\<rparr>) t2
             in insertInto par dv t3)
          else s)"

definition translateUi :: "env \<Rightarrow> nat \<Rightarrow> syringe \<Rightarrow> syringe" where
  "translateUi E n s =
     (if isText (nodes s n) then uiTextNode E n s
      else if isNode (nodes s n) ''INPUT'' \<or> isNode (nodes s n) ''TEXTAREA'' then uiInput E n s
      else if isNode (nodes s n) ''OPTGROUP'' then uiOptgroup E n s
      else
        (let s1 = uiNavLink E n s;
             s2 = uiPageCount E n s1
         in if isNode (nodes s2 n) ''DIV'' then uiBookmark E n (uiDownloader E n s2) else s2))"

subsection \<open>Tags and dispatch\<close>

definition isTagContainer :: "dom \<Rightarrow> nat option \<Rightarrow> bool" where
  "isTagContainer d e =
     (case e of
        None \<Rightarrow> False
      | Some p \<Rightarrow> ''gt'' \<in> set (classList (d p)) \<or> ''gtl'' \<in> set (classList (d p)) \<or>
                  ''gtw'' \<in> set (classList (d p)))"

definition translateTag :: "env \<Rightarrow> nat \<Rightarrow> syringe \<Rightarrow> bool \<times> syringe" where
  "translateTag E n s =
     (case parentElement (nodes s) n of
        None \<Rightarrow> (False, s)
      | Some p \<Rightarrow>
          if \<not> isText (nodes s n) then (False, s)
          else if nodeName (nodes s p) = ''MARK'' \<or>
                  ''auto-complete-text'' \<in> set (classList (nodes s p)) then (True, s)
          else if \<not> isTagContainer (nodes s) (Some p) \<and>
                  \<not> isTagContainer (nodes s) (parentElement (nodes s) p) then (False, s)
          else
            (case create E n s of
               (Plain b, s1) \<Rightarrow> (b, s1)
             | (Created r, s1) \<Rightarrow>
                 (let s2 = snd (translate E r s1)
                  in (True, s2\<lparr>tags := tags s2 @ [r]\<rparr>))))"

definition skipped :: "dom \<Rightarrow> nat \<Rightarrow> bool" where
  "skipped d n =
     (nodeName (d n) = [] \<or> nodeName (d n) \<in> set skipNode \<or>
      (case parentNode (d n) of None \<Rightarrow> False | Some p \<Rightarrow> nodeName (d p) \<in> set skipNode))"

definition translateNode :: "env \<Rightarrow> nat \<Rightarrow> syringe \<Rightarrow> syringe" where
  "translateNode E n s =
     (if skipped (nodes s) n then s
      else
        (let s1 = (if isNode (nodes s n) ''BODY'' then setBodyAttrs E n s else s);
             (handled, s2) = translateTag E n s1
         in if \<not> handled \<and> cfgTranslateUi (config s2) then translateUi E n s2 else s2))"

subsection \<open>The dictionary answer\<close>

text \<open>The answer to \<^verbatim>\<open>get-tag-map\<close>: the names by key, when the map has changed.\<close>

definition onTagMap :: "env \<Rightarrow> (string \<rightharpoonup> string) option \<Rightarrow> syringe \<Rightarrow> syringe" where
  "onTagMap E dataMap s =
     (case dataMap of None \<Rightarrow> s | Some m \<Rightarrow> translateTags E (s\<lparr>tagMap := Some m\<rparr>))"

section \<open>Notions the properties are stated with\<close>

text \<open>Two states of the service that differ at most in the document.\<close>

definition sameService :: "syringe \<Rightarrow> syringe \<Rightarrow> bool" where
  "sameService s s' =
     (tagMap s' = tagMap s \<and> tags s' = tags s \<and> documentEnd s' = documentEnd s \<and>
      config s' = config s \<and> storedConfig s' = storedConfig s \<and> bodyRef s' = bodyRef s)"

text \<open>An element is attached to the live document when its chain of parents reaches the
  document node; \<open>k\<close> bounds the length of the chain.\<close>

fun attached :: "nat \<Rightarrow> dom \<Rightarrow> nat \<Rightarrow> bool" where
  "attached 0 d n = (nodeType (d n) = DOCUMENT_NODE)"
| "attached (Suc k) d n =
     (nodeType (d n) = DOCUMENT_NODE \<or>
      (case parentNode (d n) of None \<Rightarrow> False | Some p \<Rightarrow> attached k d p))"

text \<open>The substitution pipeline in the words of the specification: every pattern rule in
  the dictionary's order, each on the output of the one before, then the normalizer for
  \<^verbatim>\<open>YYYY-MM-DD HH:MM\<close>, then the one for \<^verbatim>\<open>DD month YYYY, HH:MM\<close>.\<close>

fun threadRules :: "(string \<Rightarrow> string) list \<Rightarrow> string \<Rightarrow> string" where
  "threadRules [] txt = txt"
| "threadRules (rule # rules) txt = threadRules rules (rule txt)"

definition normalizeIso :: "env \<Rightarrow> string \<Rightarrow> string" where
  "normalizeIso E txt = replaceGlobal matchIso (relativeTime E ''Z'') 0 txt"

definition normalizeLong :: "env \<Rightarrow> string \<Rightarrow> string" where
  "normalizeLong E txt = replaceGlobal matchLong (relativeTime E '' UTC'') 0 txt"

definition specPipeline :: "env \<Rightarrow> string \<Rightarrow> string" where
  "specPipeline E txt = normalizeLong E (normalizeIso E (threadRules (regexReplacements E) txt))"

section \<open>A small page\<close>

text \<open>
  Collaborators and a document for the concrete instances below. The document node 0 holds
  the body 1. In the body: a tag container 2 with the link 3 and its text 4; a tag
  container 5 without title and id, with the text 6; an input 7. Element 8 is
  detached from the document and holds the link 9 with its text 10. The link 11 in
  container 2 has a title as well as an id; 12 is its text.
\<close>

definition exEnv :: env where
  "exEnv =
     \<lparr>tagging_fullKey = (\<lambda>ns k. case k of None \<Rightarrow> ns | Some k' \<Rightarrow> ns @ '':'' @ k'),
      tagging_markImagesAndEmoji = (\<lambda>v. v),
      tagging_removeImagesAndEmoji = (\<lambda>v. v),
      Date_parse = (\<lambda>t. if t = ''1970-01-01 00:00Z'' then Some 0
                         else if t = ''2023-06-01 10:00Z'' then Some 1685613600000
                         else None),
      time_diff = (\<lambda>date. ''some time ago''),
      plainReplacements = [''Front Page'' \<mapsto> ''Home''],
      regexReplacements = [],
      pageCountReplace = (\<lambda>t. t),
      elementText = (\<lambda>d n. []),
      hostIsEx = False\<rparr>"

definition exElement :: "string \<Rightarrow> nat option \<Rightarrow> string list \<Rightarrow> (string \<rightharpoonup> string) \<Rightarrow> node" where
  "exElement name par classes as =
     (blankElement name)\<lparr>parentNode := par, classList := classes, attrs := as\<rparr>"

definition exText :: "nat \<Rightarrow> string \<Rightarrow> node" where
  "exText par txt =
     (blankElement ''#text'')\<lparr>nodeType := TEXT_NODE, parentNode := Some par, textData := txt\<rparr>"

definition exDom :: dom where
  "exDom =
     (\<lambda>n. blankElement [])
     (0 := (blankElement ''#document'')\<lparr>nodeType := DOCUMENT_NODE\<rparr>,
      1 := exElement ''BODY'' (Some 0) [] Map.empty,
      2 := exElement ''DIV'' (Some 1) [''gt''] [''id'' \<mapsto> ''td_female:catgirl''],
      3 := exElement ''A'' (Some 2) [] [''id'' \<mapsto> ''ta_female:catgirl''],
      4 := exText 3 ''catgirl'',
      5 := exElement ''DIV'' (Some 1) [''gt''] Map.empty,
      6 := exText 5 ''Front Page'',
      7 := (exElement ''INPUT'' (Some 1) [] [''placeholder'' \<mapsto> ''Front Page''])
             \<lparr>inputType := ''text'', inputValue := ''Front Page''\<rparr>,
      8 := exElement ''DIV'' None [''gt''] Map.empty,
      9 := exElement ''A'' (Some 8) [] [''id'' \<mapsto> ''ta_female:catgirl''],
      10 := exText 9 ''catgirl'',
      11 := exElement ''A'' (Some 2) []
              [''title'' \<mapsto> ''reclass:doujinshi'', ''id'' \<mapsto> ''ta_female:catgirl''],
      12 := exText 11 ''doujinshi'')"

definition exConfig :: ConfigData where
  "exConfig = \<lparr>cfgTranslateTag = True, cfgTranslateUi = True, cfgShowIcon = True,
               cfgIntroduceImageLevel = 0\<rparr>"

definition exState :: syringe where
  "exState =
     \<lparr>nodes = exDom, fresh = 13, bodyRef = Some 1,
      tagMap = Some [''female:catgirl'' \<mapsto> ''neko''], tags = [],
      documentEnd = False, config = exConfig, storedConfig = None\<rparr>"

definition exTag :: "nat \<Rightarrow> TagNodeRef" where
  "exTag p = \<lparr>parent = p, fullKey = ''female:catgirl'', original = ''catgirl''\<rparr>"

section \<open>Auxiliary facts\<close>

subsection \<open>Splitting at a separator\<close>

lemma split_js_nonempty: "split_js c s \<noteq> []"
  by (induction s) (auto split: list.splits)

lemma hd_split_js: "hd (split_js c s) = takeWhile (\<lambda>x. x \<noteq> c) s"
  by (induction s) (auto split: list.splits simp: split_js_nonempty)

lemma split_js_no_sep: "c \<notin> set s \<Longrightarrow> split_js c s = [s]"
  by (induction s) (auto split: list.splits)

lemma split_js_dropWhile:
  "c \<in> set s \<Longrightarrow>
   split_js c s = takeWhile (\<lambda>x. x \<noteq> c) s # split_js c (tl (dropWhile (\<lambda>x. x \<noteq> c) s))"
  by (induction s) (auto split: list.splits simp: split_js_nonempty)

lemma second_split_js:
  "at_js (split_js c s) (Suc 0) =
     (if c \<in> set s then Some (takeWhile (\<lambda>x. x \<noteq> c) (tl (dropWhile (\<lambda>x. x \<noteq> c) s)))
      else None)"
proof (cases "c \<in> set s")
  case True
  let ?rest = "tl (dropWhile (\<lambda>x. x \<noteq> c) s)"
  obtain y ys where yys: "split_js c ?rest = y # ys"
    using split_js_nonempty[of c ?rest] by (cases "split_js c ?rest") auto
  then have "y = takeWhile (\<lambda>x. x \<noteq> c) ?rest"
    using hd_split_js[of c ?rest] by simp
  then show ?thesis
    using True yys split_js_dropWhile[OF True] by (simp add: at_js_def)
next
  case False
  then show ?thesis by (simp add: split_js_no_sep at_js_def)
qed

subsection \<open>Writes to one element\<close>

lemma replaceContent_twice:
  "replaceContent p c' (setAttribute p a v (replaceContent p c d)) =
   setAttribute p a v (replaceContent p c' d)"
  by (rule ext) (auto simp: setAttribute_def replaceContent_def)

lemma setAttribute_twice:
  "setAttribute p a v' (setAttribute p a v d) = setAttribute p a v' d"
  by (rule ext) (auto simp: setAttribute_def)

lemma setAttribute_replaceContent_absorb:
  "setAttribute p a v (replaceContent p c (setAttribute p a v' d)) =
   setAttribute p a v (replaceContent p c d)"
  by (rule ext) (auto simp: setAttribute_def replaceContent_def)

lemma write_idem:
  "setAttribute p a v (replaceContent p c (setAttribute p a v (replaceContent p c d))) =
   setAttribute p a v (replaceContent p c d)"
  by (rule ext) (auto simp: setAttribute_def replaceContent_def)

lemma parentElement_after_write:
  "parentNode (d p) \<noteq> Some p \<Longrightarrow>
   parentElement (setAttribute p a v (replaceContent p c d)) p = parentElement d p"
  by (auto simp: parentElement_def setAttribute_def replaceContent_def split: option.splits)

subsection \<open>The branches of translate\<close>

lemma translate_dead: "\<not> alive s t \<Longrightarrow> translate E t s = (True, s)"
  by (simp add: translate_def)

lemma translate_off:
  "alive s t \<Longrightarrow> \<not> cfgTranslateTag (config s) \<Longrightarrow>
   translate E t s =
     (True, s\<lparr>nodes := setAttribute (parent t) ''lang'' ''en''
                         (replaceContent (parent t) (InnerText (original t)) (nodes s))\<rparr>)"
  by (simp add: translate_def)

lemma translate_hit:
  "alive s t \<Longrightarrow> cfgTranslateTag (config s) \<Longrightarrow> tagMap s = Some m \<Longrightarrow>
   m (fullKey t) = Some v \<Longrightarrow> v \<noteq> [] \<Longrightarrow>
   translate E t s =
     (True, s\<lparr>nodes := setAttribute (parent t) ''lang'' ''cmn-Hans''
                         (replaceContent (parent t)
                            (InnerHTML (translatedValue E (config s) t v)) (nodes s))\<rparr>)"
  by (simp add: translate_def)

lemma translate_miss:
  "alive s t \<Longrightarrow> cfgTranslateTag (config s) \<Longrightarrow>
   tagMap s = None \<or>
   (\<exists>m. tagMap s = Some m \<and> (m (fullKey t) = None \<or> m (fullKey t) = Some [])) \<Longrightarrow>
   translate E t s = (False, s)"
  by (auto simp: translate_def)

lemma translate_cases:
  assumes "alive s t" "cfgTranslateTag (config s)"
  obtains (miss) "translate E t s = (False, s)"
        | (hit) m v where "tagMap s = Some m" "m (fullKey t) = Some v" "v \<noteq> []"
  using assms translate_miss[of s t E]
  by (cases "tagMap s"; cases "the (tagMap s) (fullKey t)") auto

lemma roundtrip_steps:
  assumes live: "alive s t"
      and tree: "parentNode (nodes s (parent t)) \<noteq> Some (parent t)"
      and on: "cfgTranslateTag (config s)"
      and first: "translate E t s = (ok, s_on)"
      and off: "translate E t (s_on\<lparr>config := (config s)\<lparr>cfgTranslateTag := False\<rparr>\<rparr>) = (ok_off, s_off)"
      and again: "translate E t (s_off\<lparr>config := config s\<rparr>) = (ok2, s_on2)"
  shows "ok_off \<and> inner (nodes s_off (parent t)) = InnerText (original t) \<and>
         attrs (nodes s_off (parent t)) ''lang'' = Some ''en'' \<and>
         ok2 = ok \<and> (ok \<longrightarrow> s_on2 = s_on)"
proof -
  let ?p = "parent t"
  let ?offd = "\<lambda>d. setAttribute ?p ''lang'' ''en'' (replaceContent ?p (InnerText (original t)) d)"
  consider (miss) "translate E t s = (False, s)"
    | (hit) m v where "tagMap s = Some m" "m (fullKey t) = Some v" "v \<noteq> []"
    using translate_cases[OF live on, of E] by blast
  then show ?thesis
  proof cases
    case miss
    then have s_on: "s_on = s" "\<not> ok" using first by simp_all
    have "alive (s\<lparr>config := (config s)\<lparr>cfgTranslateTag := False\<rparr>\<rparr>) t"
      using live by (simp add: alive_def)
    from translate_off[OF this, of E] off s_on
    have s_off: "ok_off" "s_off = s\<lparr>config := (config s)\<lparr>cfgTranslateTag := False\<rparr>,
        nodes := ?offd (nodes s)\<rparr>" by simp_all
    have live2: "alive (s_off\<lparr>config := config s\<rparr>) t"
      using live tree s_off by (simp add: alive_def parentElement_after_write)
    have "translate E t (s_off\<lparr>config := config s\<rparr>) = (False, s_off\<lparr>config := config s\<rparr>)"
    proof (rule translate_miss[OF live2])
      show "cfgTranslateTag (config (s_off\<lparr>config := config s\<rparr>))" using on by simp
      show "tagMap (s_off\<lparr>config := config s\<rparr>) = None \<or>
        (\<exists>m. tagMap (s_off\<lparr>config := config s\<rparr>) = Some m \<and>
             (m (fullKey t) = None \<or> m (fullKey t) = Some []))"
        using miss live on s_off(2) by (auto simp: translate_def split: option.splits if_splits)
    qed
    with again have "\<not> ok2" by simp
    then show ?thesis using s_on s_off by (simp add: setAttribute_def replaceContent_def)
  next
    case (hit m v)
    let ?ond = "\<lambda>d. setAttribute ?p ''lang'' ''cmn-Hans''
                  (replaceContent ?p (InnerHTML (translatedValue E (config s) t v)) d)"
    from translate_hit[OF live on hit, of E] first
    have s_on: "ok" "s_on = s\<lparr>nodes := ?ond (nodes s)\<rparr>" by simp_all
    have tree_on: "parentNode (nodes s_on ?p) \<noteq> Some ?p"
      using tree s_on by (simp add: setAttribute_def replaceContent_def)
    have "alive (s_on\<lparr>config := (config s)\<lparr>cfgTranslateTag := False\<rparr>\<rparr>) t"
      using live tree s_on by (simp add: alive_def parentElement_after_write)
    from translate_off[OF this, of E] off
    have s_off: "ok_off" "s_off = s_on\<lparr>config := (config s)\<lparr>cfgTranslateTag := False\<rparr>,
        nodes := ?offd (nodes s_on)\<rparr>" by simp_all
    have live2: "alive (s_off\<lparr>config := config s\<rparr>) t"
      using live tree tree_on s_on s_off by (simp add: alive_def parentElement_after_write)
    have "translate E t (s_off\<lparr>config := config s\<rparr>) =
            (True, (s_off\<lparr>config := config s\<rparr>)\<lparr>nodes := ?ond (nodes (s_off\<lparr>config := config s\<rparr>))\<rparr>)"
      using translate_hit[OF live2, of m v E] on hit s_off s_on by simp
    with again have s2: "ok2" "s_on2 = (s_off\<lparr>config := config s\<rparr>)\<lparr>nodes := ?ond (nodes s_off)\<rparr>"
      by simp_all
    have "?ond (nodes s_off) = ?ond (nodes s)"
      unfolding s_off s_on
      by (simp add: replaceContent_twice setAttribute_twice setAttribute_replaceContent_absorb)
    then have "s_on2 = s_on" using s2 s_off s_on by simp
    then show ?thesis using s_on s_off s2 by (simp add: setAttribute_def replaceContent_def)
  qed
qed

subsection \<open>What the UI branches leave alone\<close>

lemma sameService_refl [simp]: "sameService s s"
  by (simp add: sameService_def)

lemma sameService_trans: "sameService s s1 \<Longrightarrow> sameService s1 s2 \<Longrightarrow> sameService s s2"
  by (simp add: sameService_def)

lemma sameService_updNode [simp]: "sameService s (updNode n f s)"
  by (simp add: sameService_def updNode_def)

lemma sameService_nodes [simp]: "sameService s (s\<lparr>nodes := d\<rparr>)"
  by (simp add: sameService_def)

lemma sameService_insertInto [simp]: "sameService s (insertInto par new s)"
  by (simp add: insertInto_def)

lemma sameService_createElement [simp]: "sameService s (snd (createElementWithText name t s))"
  by (simp add: sameService_def createElementWithText_def)

lemma sameService_uiTextNode: "sameService s (uiTextNode E n s)"
  by (simp add: uiTextNode_def split: option.splits)

lemma sameService_uiInput: "sameService s (uiInput E n s)"
  by (simp add: uiInput_def Let_def sameService_def updNode_def split: option.splits)

lemma sameService_uiOptgroup: "sameService s (uiOptgroup E n s)"
  by (simp add: uiOptgroup_def split: option.splits)

lemma sameService_uiNavLink: "sameService s (uiNavLink E n s)"
  by (simp add: uiNavLink_def split: option.splits)

lemma sameService_uiPageCount: "sameService s (uiPageCount E n s)"
  by (simp add: uiPageCount_def sameService_def createElementWithText_def updNode_def insertInto_def Let_def split: option.splits)

lemma sameService_uiDownloader: "sameService s (uiDownloader E n s)"
  by (simp add: uiDownloader_def sameService_def createElementWithText_def updNode_def insertInto_def Let_def split: option.splits)

lemma sameService_uiBookmark: "sameService s (uiBookmark E n s)"
  by (simp add: uiBookmark_def sameService_def createElementWithText_def updNode_def insertInto_def Let_def split: option.splits)

lemma sameService_translateUi: "sameService s (translateUi E n s)"
  unfolding translateUi_def Let_def
  by (auto intro: sameService_uiTextNode sameService_uiInput sameService_uiOptgroup
        sameService_trans[OF sameService_uiNavLink sameService_uiPageCount]
        sameService_trans[OF sameService_trans[OF sameService_uiNavLink sameService_uiPageCount]
           sameService_trans[OF sameService_uiDownloader sameService_uiBookmark]])

subsection \<open>What the tag and dispatch steps leave alone\<close>

lemma sameService_setBodyAttrs: "sameService s (setBodyAttrs E b s)"
  by (simp add: setBodyAttrs_def sameService_def Let_def)

lemma sameService_translate: "sameService s (snd (translate E t s))"
  by (simp add: translate_def sameService_def split: option.splits)

lemma sameService_fold_translate:
  "sameService s (fold (\<lambda>t st. snd (translate E t st)) ts s)"
proof (induction ts arbitrary: s)
  case Nil
  show ?case by simp
next
  case (Cons t ts)
  show ?case
    using sameService_trans[OF sameService_translate Cons.IH] by simp
qed

lemma translateTags_service:
  "tagMap (translateTags E s) = tagMap s \<and> documentEnd (translateTags E s) = documentEnd s \<and>
   config (translateTags E s) = config s \<and>
   tags (translateTags E s) = filter (alive s) (tags s)"
  using sameService_fold_translate[of "s\<lparr>tags := filter (alive s) (tags s)\<rparr>" E "filter (alive s) (tags s)"]
  by (simp add: translateTags_def sameService_def Let_def)

lemma sameService_create: "sameService s (snd (create E n s))"
  by (simp add: create_def sameService_def Let_def split: option.splits)

subsection \<open>Pattern rules in order\<close>

lemma fold_rules: "fold (\<lambda>rule r. rule r) rules t = threadRules rules t"
  by (induction rules arbitrary: t) simp_all

subsection \<open>A tag container without a key\<close>

lemma parentElement_parentNode: "parentElement d n = Some p \<Longrightarrow> parentNode (d n) = Some p"
  by (auto simp: parentElement_def split: option.splits if_splits)

lemma translateTag_keyless:
  assumes "isText (nodes s n)"
      and "parentElement (nodes s) n = Some p"
      and "nodeName (nodes s p) \<noteq> ''MARK''"
      and "''auto-complete-text'' \<notin> set (classList (nodes s p))"
      and "isTagContainer (nodes s) (Some p) \<or> isTagContainer (nodes s) (parentElement (nodes s) p)"
      and "\<not> hasAttribute (nodes s p) ATTR"
      and "fullKeyCandidate E (reflected (nodes s p) ''title'') (reflected (nodes s p) ''id'') \<in> {None, Some []}"
  shows "translateTag E n s = (False, s)"
proof -
  have "create E n s = (Plain False, s)"
    using assms(2,6,7) by (auto simp: create_def)
  then show ?thesis
    using assms(1-5) by (auto simp: translateTag_def)
qed

subsection \<open>Entries whose element has no parent element\<close>

lemma translate_nodeType:
  "nodeType (nodes (snd (translate E u s)) n) = nodeType (nodes s n)"
  by (simp add: translate_def setAttribute_def replaceContent_def split: option.splits)

lemma translate_classList:
  "classList (nodes (snd (translate E u s)) n) = classList (nodes s n)"
  by (simp add: translate_def setAttribute_def replaceContent_def split: option.splits)

lemma translate_keeps_dead:
  assumes dead: "parentElement (nodes s) q = None"
      and elem: "nodeType (nodes s (parent u)) = ELEMENT_NODE"
  shows "nodes (snd (translate E u s)) q = nodes s q"
proof (cases "alive s u")
  case False
  then show ?thesis by (simp add: translate_dead)
next
  case True
  then have neq: "q \<noteq> parent u" using dead by (auto simp: alive_def)
  have notchild: "parentNode (nodes s q) \<noteq> Some (parent u)"
    using dead elem by (auto simp: parentElement_def split: option.splits if_splits)
  show ?thesis
    using neq notchild
    by (simp add: translate_def setAttribute_def replaceContent_def split: option.splits)
qed

lemma dead_stays_dead:
  assumes dead: "parentElement (nodes s) q = None"
      and elem: "nodeType (nodes s (parent u)) = ELEMENT_NODE"
  shows "parentElement (nodes (snd (translate E u s))) q = None"
  using dead translate_keeps_dead[OF dead elem, of E]
  by (auto simp: parentElement_def translate_nodeType split: option.splits if_splits)

lemma fold_translate_keeps_dead:
  assumes "parentElement (nodes s) q = None"
      and "\<forall>u \<in> set us. nodeType (nodes s (parent u)) = ELEMENT_NODE"
  shows "nodes (fold (\<lambda>t st. snd (translate E t st)) us s) q = nodes s q"
  using assms
proof (induction us arbitrary: s)
  case Nil
  show ?case by simp
next
  case (Cons u us)
  let ?s1 = "snd (translate E u s)"
  have elem: "nodeType (nodes s (parent u)) = ELEMENT_NODE" using Cons.prems(2) by simp
  have d1: "parentElement (nodes ?s1) q = None"
    by (rule dead_stays_dead[OF Cons.prems(1) elem])
  have e1: "\<forall>v \<in> set us. nodeType (nodes ?s1 (parent v)) = ELEMENT_NODE"
    using Cons.prems(2) by (simp add: translate_nodeType)
  have "nodes (fold (\<lambda>t st. snd (translate E t st)) us ?s1) q = nodes ?s1 q"
    by (rule Cons.IH[OF d1 e1])
  then show ?case
    using translate_keeps_dead[OF Cons.prems(1) elem, of E] by simp
qed

lemma alive_tags_update: "alive (s\<lparr>tags := ts\<rparr>) = alive s"
  by (rule ext) (simp add: alive_def)

lemma translateTags_without_dead:
  assumes "\<not> alive s t"
  shows "translateTags E s = translateTags E (s\<lparr>tags := removeAll t (tags s)\<rparr>)"
proof -
  have "filter (alive s) (removeAll t (tags s)) = filter (alive s) (tags s)"
    using assms by (induction "tags s") (auto simp: filter_id_conv removeAll_filter_not_eq intro: filter_cong)
  then show ?thesis
    by (simp add: translateTags_def Let_def alive_tags_update)
qed

subsection \<open>The refresh pass and the body\<close>

lemma fold_translate_classList:
  "classList (nodes (fold (\<lambda>t st. snd (translate E t st)) ts s) n) = classList (nodes s n)"
  by (induction ts arbitrary: s) (simp_all add: translate_classList)

lemma translateTags_classList:
  "classList (nodes (translateTags E s) n) = classList (nodes s n)"
  by (simp add: translateTags_def Let_def fold_translate_classList)

lemma translateTags_stored:
  "storedConfig (translateTags E s) = storedConfig s \<and> bodyRef (translateTags E s) = bodyRef s"
  using sameService_fold_translate[of "s\<lparr>tags := filter (alive s) (tags s)\<rparr>" E "filter (alive s) (tags s)"]
  by (simp add: translateTags_def sameService_def Let_def)

lemma setBodyAttrs_classList_config:
  "classList (nodes (setBodyAttrs E b (s\<lparr>config := c, storedConfig := x\<rparr>)) b) =
   classList (nodes (setBodyAttrs E b (s\<lparr>config := c\<rparr>)) b)"
  by (simp add: setBodyAttrs_def Let_def)

lemma translateTag_autocomplete:
  assumes "isText (nodes s n)"
      and "parentElement (nodes s) n = Some p"
      and "''auto-complete-text'' \<in> set (classList (nodes s p))"
  shows "translateTag E n s = (True, s)"
  using assms by (simp add: translateTag_def)

lemma setBodyAttrs_structure:
  "parentNode (nodes (setBodyAttrs E b s) n) = parentNode (nodes s n) \<and>
   nodeType (nodes (setBodyAttrs E b s) n) = nodeType (nodes s n)"
  by (simp add: setBodyAttrs_def Let_def del: show_nat.simps)

lemma alive_setBodyAttrs: "alive (setBodyAttrs E b s) = alive s"
  by (rule ext) (simp add: alive_def parentElement_def setBodyAttrs_structure split: option.splits)

lemma alive_config: "alive (s\<lparr>config := c, storedConfig := x\<rparr>) = alive s"
  by (rule ext) (simp add: alive_def)

section \<open>Tag key derivation\<close>

text \<open>
  Claim C10. In \<^verbatim>\<open>TagNodeRef.create\<close> a non-empty title decides the key alone: for a
  text node whose container is not yet marked and has a non-empty title, the key is
  \<^verbatim>\<open>fullKey\<close> applied to the part of the title before the first colon and the part
  between the first and the second colon, the latter being undefined when the title has no
  colon. The id of the container does not occur in the result.
\<close>

theorem create_title_precedence:
  assumes "parentElement (nodes s) n = Some p"
      and "\<not> hasAttribute (nodes s p) ATTR"
      and "reflected (nodes s p) ''title'' = ttl"
      and "ttl \<noteq> []"
  shows "fst (create E n s) =
     (let k = tagging_fullKey E (takeWhile (\<lambda>x. x \<noteq> CHR '':'') ttl)
                (if CHR '':'' \<in> set ttl
                 then Some (takeWhile (\<lambda>x. x \<noteq> CHR '':'')
                              (tl (dropWhile (\<lambda>x. x \<noteq> CHR '':'') ttl)))
                 else None)
      in if k = [] then Plain False
         else Created \<lparr>parent = p, fullKey = k, original = textData (nodes s n)\<rparr>)"
  using assms
  by (simp add: create_def fullKeyCandidate_def Let_def hd_split_js second_split_js)

theorem create_title_precedence_witness:
  "parentElement (nodes exState) 12 = Some 11 \<and>
   \<not> hasAttribute (nodes exState 11) ATTR \<and>
   reflected (nodes exState 11) ''title'' = ''reclass:doujinshi'' \<and>
   ''reclass:doujinshi'' \<noteq> [] \<and>
   fst (create exEnv 12 exState) =
     Created \<lparr>parent = 11, fullKey = ''reclass:doujinshi'', original = ''doujinshi''\<rparr>"
proof -
  have h1: "parentElement (nodes exState) 12 = Some 11" by code_simp
  have h2: "\<not> hasAttribute (nodes exState 11) ATTR" by code_simp
  have h3: "reflected (nodes exState 11) ''title'' = ''reclass:doujinshi''" by code_simp
  have h4: "''reclass:doujinshi'' \<noteq> []" by simp
  have h5: "textData (nodes exState 12) = ''doujinshi''" by code_simp
  show ?thesis
    using h1 h2 h3 h5 create_title_precedence[OF h1 h2 h3 h4, of exEnv]
    by (simp add: exEnv_def)
qed

section \<open>translate()\<close>

text \<open>
  Claim C6. \<^verbatim>\<open>translate()\<close> is idempotent: with configuration and dictionary as they
  are, a second call on the state left by the first returns the same value and leaves the
  same state, and so does any number of further calls.
\<close>

theorem translate_idempotent:
  "translate E t (snd (translate E t s)) = translate E t s \<and>
   ((\<lambda>st. snd (translate E t st)) ^^ Suc k) s = snd (translate E t s)"
proof -
  have once: "translate E t (snd (translate E t s)) = translate E t s" for s
    by (auto simp: translate_def alive_def write_idem split: option.splits)
  have "((\<lambda>st. snd (translate E t st)) ^^ Suc k) s = snd (translate E t s)"
    by (induction k) (simp_all add: once)
  with once show ?thesis by simp
qed

text \<open>
  Claim C7. For a live entry, with the dictionary unchanged: after a first
  \<^verbatim>\<open>translate()\<close> with \<^verbatim>\<open>translateTag\<close> enabled, a call with \<^verbatim>\<open>translateTag\<close>
  disabled succeeds, leaves the original text captured at creation as the content of the
  container and sets the language marker to \<^verbatim>\<open>en\<close>; a further call with
  \<^verbatim>\<open>translateTag\<close> enabled again returns what the first call returned and, when the
  first call translated, leaves exactly the state the first call left (the same translated
  content and the marker \<^verbatim>\<open>cmn-Hans\<close>). The owning element is not its own parent, as
  in every document tree.
\<close>

theorem translate_off_on_roundtrip:
  assumes "alive s t"
      and "parentNode (nodes s (parent t)) \<noteq> Some (parent t)"
      and "cfgTranslateTag (config s)"
  shows "(let (ok, s_on) = translate E t s;
              (ok_off, s_off) = translate E t (s_on\<lparr>config := (config s)\<lparr>cfgTranslateTag := False\<rparr>\<rparr>);
              (ok2, s_on2) = translate E t (s_off\<lparr>config := config s\<rparr>)
          in ok_off \<and> inner (nodes s_off (parent t)) = InnerText (original t) \<and>
             attrs (nodes s_off (parent t)) ''lang'' = Some ''en'' \<and>
             ok2 = ok \<and> (ok \<longrightarrow> s_on2 = s_on))"
proof -
  obtain ok s_on where a: "translate E t s = (ok, s_on)"
    by (cases "translate E t s")
  obtain ok_off s_off
    where b: "translate E t (s_on\<lparr>config := (config s)\<lparr>cfgTranslateTag := False\<rparr>\<rparr>) = (ok_off, s_off)"
    by (cases "translate E t (s_on\<lparr>config := (config s)\<lparr>cfgTranslateTag := False\<rparr>\<rparr>)")
  obtain ok2 s_on2 where c: "translate E t (s_off\<lparr>config := config s\<rparr>) = (ok2, s_on2)"
    by (cases "translate E t (s_off\<lparr>config := config s\<rparr>)")
  from roundtrip_steps[OF assms a b c] show ?thesis
    by (simp add: a b c)
qed

theorem translate_off_on_roundtrip_witness:
  "alive (exState\<lparr>tags := [exTag 3]\<rparr>) (exTag 3) \<and>
   parentNode (nodes (exState\<lparr>tags := [exTag 3]\<rparr>) (parent (exTag 3))) \<noteq> Some (parent (exTag 3)) \<and>
   cfgTranslateTag (config (exState\<lparr>tags := [exTag 3]\<rparr>)) \<and>
   fst (translate exEnv (exTag 3) (exState\<lparr>tags := [exTag 3]\<rparr>)) \<and>
   (let (ok, s_on) = translate exEnv (exTag 3) (exState\<lparr>tags := [exTag 3]\<rparr>);
        (ok_off, s_off) = translate exEnv (exTag 3)
            (s_on\<lparr>config := (config (exState\<lparr>tags := [exTag 3]\<rparr>))\<lparr>cfgTranslateTag := False\<rparr>\<rparr>);
        (ok2, s_on2) = translate exEnv (exTag 3) (s_off\<lparr>config := config (exState\<lparr>tags := [exTag 3]\<rparr>)\<rparr>)
    in ok_off \<and> inner (nodes s_off (parent (exTag 3))) = InnerText (original (exTag 3)) \<and>
       attrs (nodes s_off (parent (exTag 3))) ''lang'' = Some ''en'' \<and>
       ok2 = ok \<and> (ok \<longrightarrow> s_on2 = s_on))"
proof -
  have h1: "alive (exState\<lparr>tags := [exTag 3]\<rparr>) (exTag 3)" by code_simp
  have h2: "parentNode (nodes (exState\<lparr>tags := [exTag 3]\<rparr>) (parent (exTag 3))) \<noteq> Some (parent (exTag 3))"
    by code_simp
  have h3: "cfgTranslateTag (config (exState\<lparr>tags := [exTag 3]\<rparr>))" by code_simp
  have h4: "fst (translate exEnv (exTag 3) (exState\<lparr>tags := [exTag 3]\<rparr>))" by code_simp
  show ?thesis
    using h1 h2 h3 h4 translate_off_on_roundtrip[OF h1 h2 h3, of exEnv] by blast
qed

section \<open>UI text\<close>

text \<open>
  Claim C5. \<^verbatim>\<open>translateUiText\<close> returns the value of the exact-match dictionary as it
  is when the input is a key of that dictionary. Otherwise the input goes through the
  pattern rules in their order and through the two date normalizers, and the outcome is
  returned when it differs from the input; when it is the input again, nothing is returned.
\<close>

theorem translateUiText_exact_or_pipeline:
  "(\<forall>v. plainReplacements E t = Some v \<longrightarrow> translateUiText E t = Some v) \<and>
   (plainReplacements E t = None \<longrightarrow>
      translateUiText E t = (if specPipeline E t = t then None else Some (specPipeline E t)))"
  by (simp add: translateUiText_def specPipeline_def normalizeIso_def normalizeLong_def fold_rules Let_def)

theorem translateUiText_exact_or_pipeline_witness:
  "plainReplacements exEnv ''Front Page'' = Some ''Home'' \<and>
   translateUiText exEnv ''Front Page'' = Some ''Home'' \<and>
   plainReplacements exEnv ''2023-06-01 10:00'' = None \<and>
   specPipeline exEnv ''2023-06-01 10:00'' = ''some time ago'' \<and>
   translateUiText exEnv ''2023-06-01 10:00'' = Some ''some time ago'' \<and>
   plainReplacements exEnv ''Archive'' = None \<and>
   specPipeline exEnv ''Archive'' = ''Archive'' \<and>
   translateUiText exEnv ''Archive'' = None"
proof -
  have h1: "plainReplacements exEnv ''Front Page'' = Some ''Home''" by (simp add: exEnv_def)
  have h2: "plainReplacements exEnv ''2023-06-01 10:00'' = None" by (simp add: exEnv_def)
  have h3: "specPipeline exEnv ''2023-06-01 10:00'' = ''some time ago''" by code_simp
  have h4: "plainReplacements exEnv ''Archive'' = None" by (simp add: exEnv_def)
  have h5: "specPipeline exEnv ''Archive'' = ''Archive''" by code_simp
  show ?thesis
    using h1 h2 h3 h4 h5
      translateUiText_exact_or_pipeline[of exEnv "''Front Page''"]
      translateUiText_exact_or_pipeline[of exEnv "''2023-06-01 10:00''"]
      translateUiText_exact_or_pipeline[of exEnv "''Archive''"]
    by simp
qed

text \<open>
  Claim C4, evaluated at the timestamp of the epoch. The text \<^verbatim>\<open>1970-01-01 00:00\<close>
  matches the first pattern and \<^verbatim>\<open>Date.parse\<close> yields the instant 0 for it, yet
  the callback returns the match itself and \<^verbatim>\<open>translateUiText\<close> reports no
  translation. A match with a non-zero instant is replaced by the relative time.
\<close>

theorem epoch_timestamp_left_unchanged:
  "matchIso ''1970-01-01 00:00'' = Some 16 \<and>
   Date_parse exEnv ''1970-01-01 00:00Z'' = Some 0 \<and>
   relativeTime exEnv ''Z'' ''1970-01-01 00:00'' = ''1970-01-01 00:00'' \<and>
   translateUiText exEnv ''1970-01-01 00:00'' = None \<and>
   translateUiText exEnv ''2023-06-01 10:00'' = Some (time_diff exEnv 1685613600000)"
  by code_simp

text \<open>
  Claim C9. For an input or textarea element, \<^verbatim>\<open>translateUi\<close> replaces the
  placeholder by its translation when the placeholder is not empty and a translation
  exists, and replaces the value by its translation only when the type of the element is
  \<^verbatim>\<open>submit\<close> or \<^verbatim>\<open>button\<close>; with any other type the value stays as it is.
\<close>

theorem translateUi_input:
  assumes "\<not> isText (nodes s n)"
      and "isNode (nodes s n) ''INPUT'' \<or> isNode (nodes s n) ''TEXTAREA''"
  shows "(let e = nodes s n; e' = nodes (translateUi E n s) n;
              ph = reflected e ''placeholder''
          in reflected e' ''placeholder'' =
               (if ph \<noteq> [] then (case translateUiText E ph of None \<Rightarrow> ph | Some t \<Rightarrow> t) else ph) \<and>
             inputValue e' =
               (if inputType e = ''submit'' \<or> inputType e = ''button''
                then (case translateUiText E (inputValue e) of None \<Rightarrow> inputValue e | Some t \<Rightarrow> t)
                else inputValue e) \<and>
             inputType e' = inputType e)"
  using assms
  by (auto simp: translateUi_def uiInput_def Let_def updNode_def reflected_def split: option.splits)

theorem translateUi_input_witness:
  "\<not> isText (nodes exState 7) \<and>
   (isNode (nodes exState 7) ''INPUT'' \<or> isNode (nodes exState 7) ''TEXTAREA'') \<and>
   reflected (nodes exState 7) ''placeholder'' = ''Front Page'' \<and>
   inputValue (nodes exState 7) = ''Front Page'' \<and>
   inputType (nodes exState 7) = ''text'' \<and>
   reflected (nodes (translateUi exEnv 7 exState) 7) ''placeholder'' = ''Home'' \<and>
   inputValue (nodes (translateUi exEnv 7 exState) 7) = ''Front Page''"
proof -
  have h1: "\<not> isText (nodes exState 7)" by code_simp
  have h2: "isNode (nodes exState 7) ''INPUT'' \<or> isNode (nodes exState 7) ''TEXTAREA''" by code_simp
  have h3: "reflected (nodes exState 7) ''placeholder'' = ''Front Page''" by code_simp
  have h4: "inputValue (nodes exState 7) = ''Front Page''" by code_simp
  have h5: "inputType (nodes exState 7) = ''text''" by code_simp
  have h6: "translateUiText exEnv ''Front Page'' = Some ''Home''" by code_simp
  show ?thesis
    using h1 h2 h3 h4 h5 h6 translateUi_input[OF h1 h2, of exEnv]
    by (simp add: Let_def)
qed

section \<open>Tag text without a key\<close>

text \<open>
  Claim C1 as stated fails on the page of the examples: the text 6 lies in the tag container 5, which
  has neither title nor id; \<^verbatim>\<open>translateTag\<close> reports it as not handled and
  \<^verbatim>\<open>translateNode\<close> replaces its text by the UI translation.
\<close>

theorem keyless_tag_text_is_ui_translated:
  "isText (nodes exState 6) \<and>
   isTagContainer (nodes exState) (parentElement (nodes exState) 6) \<and>
   reflected (nodes exState 5) ''title'' = [] \<and> reflected (nodes exState 5) ''id'' = [] \<and>
   fst (translateTag exEnv 6 exState) = False \<and>
   textData (nodes exState 6) = ''Front Page'' \<and>
   textData (nodes (translateNode exEnv 6 exState) 6) = ''Home''"
  by code_simp

text \<open>
  Claim C1, amended. For a text node that is dispatched (not skipped) and lies in a tag
  container whose element is not yet marked and yields no key (none at all, or an empty
  one), \<^verbatim>\<open>translateTag\<close> changes nothing and creates no tracked entry. When the
  parent element carries the class \<^verbatim>\<open>auto-complete-text\<close> the node is reported as
  handled and no UI translation runs. Otherwise the node is reported as not handled, and
  \<^verbatim>\<open>translateNode\<close> runs the UI translation of text nodes on it exactly when
  \<^verbatim>\<open>translateUi\<close> is enabled in the configuration.
\<close>

theorem keyless_tag_text_falls_through:
  assumes "isText (nodes s n)"
      and "nodeName (nodes s n) = ''#text''"
      and "\<not> skipped (nodes s) n"
      and "parentElement (nodes s) n = Some p"
      and "isTagContainer (nodes s) (Some p) \<or> isTagContainer (nodes s) (parentElement (nodes s) p)"
      and "\<not> hasAttribute (nodes s p) ATTR"
      and "fullKeyCandidate E (reflected (nodes s p) ''title'') (reflected (nodes s p) ''id'') \<in> {None, Some []}"
  shows "translateTag E n s = (''auto-complete-text'' \<in> set (classList (nodes s p)), s) \<and>
         tags (translateNode E n s) = tags s \<and>
         translateNode E n s =
           (if ''auto-complete-text'' \<notin> set (classList (nodes s p)) \<and> cfgTranslateUi (config s)
            then uiTextNode E n s else s)"
proof -
  let ?ac = "''auto-complete-text'' \<in> set (classList (nodes s p))"
  have mark: "nodeName (nodes s p) \<noteq> ''MARK''"
    using assms(3) parentElement_parentNode[OF assms(4)] by (auto simp: skipped_def skipNode_def)
  have body: "\<not> isNode (nodes s n) ''BODY''"
    using assms(2) by (simp add: isNode_def)
  have a: "translateTag E n s = (?ac, s)"
  proof (cases ?ac)
    case True
    then show ?thesis using translateTag_autocomplete[OF assms(1) assms(4)] by simp
  next
    case False
    then show ?thesis
      using translateTag_keyless[OF assms(1) assms(4) mark False assms(5-7)] by simp
  qed
  have c: "translateNode E n s =
           (if \<not> ?ac \<and> cfgTranslateUi (config s) then uiTextNode E n s else s)"
    using assms(1,3) body a by (simp add: translateNode_def translateUi_def Let_def)
  have d: "tags (uiTextNode E n s) = tags s"
    using sameService_uiTextNode[of s E n] by (simp add: sameService_def)
  show ?thesis using a c d by simp
qed

theorem keyless_tag_text_falls_through_witness:
  "isText (nodes exState 6) \<and> nodeName (nodes exState 6) = ''#text'' \<and>
   \<not> skipped (nodes exState) 6 \<and> parentElement (nodes exState) 6 = Some 5 \<and>
   (isTagContainer (nodes exState) (Some 5) \<or>
    isTagContainer (nodes exState) (parentElement (nodes exState) 5)) \<and>
   \<not> hasAttribute (nodes exState 5) ATTR \<and>
   fullKeyCandidate exEnv (reflected (nodes exState 5) ''title'') (reflected (nodes exState 5) ''id'')
     \<in> {None, Some []} \<and>
   ''auto-complete-text'' \<notin> set (classList (nodes exState 5)) \<and>
   cfgTranslateUi (config exState) \<and>
   translateTag exEnv 6 exState = (False, exState) \<and>
   tags (translateNode exEnv 6 exState) = tags exState \<and>
   translateNode exEnv 6 exState = uiTextNode exEnv 6 exState \<and>
   textData (nodes (translateNode exEnv 6 exState) 6) = ''Home'' \<and>
   ''auto-complete-text'' \<in> set (classList
      (nodes (updNode 5 (\<lambda>e. e\<lparr>classList := [''gt'', ''auto-complete-text'']\<rparr>) exState) 5)) \<and>
   translateTag exEnv 6 (updNode 5 (\<lambda>e. e\<lparr>classList := [''gt'', ''auto-complete-text'']\<rparr>) exState) =
     (True, updNode 5 (\<lambda>e. e\<lparr>classList := [''gt'', ''auto-complete-text'']\<rparr>) exState) \<and>
   translateNode exEnv 6 (updNode 5 (\<lambda>e. e\<lparr>classList := [''gt'', ''auto-complete-text'']\<rparr>) exState) =
     updNode 5 (\<lambda>e. e\<lparr>classList := [''gt'', ''auto-complete-text'']\<rparr>) exState"
proof -
  have h1: "isText (nodes exState 6)" by code_simp
  have h2: "nodeName (nodes exState 6) = ''#text''" by code_simp
  have h3: "\<not> skipped (nodes exState) 6" by code_simp
  have h4: "parentElement (nodes exState) 6 = Some 5" by code_simp
  have h5: "isTagContainer (nodes exState) (Some 5) \<or>
    isTagContainer (nodes exState) (parentElement (nodes exState) 5)" by code_simp
  have h6: "\<not> hasAttribute (nodes exState 5) ATTR" by code_simp
  have h7: "fullKeyCandidate exEnv (reflected (nodes exState 5) ''title'') (reflected (nodes exState 5) ''id'')
     \<in> {None, Some []}" by code_simp
  have h8: "''auto-complete-text'' \<notin> set (classList (nodes exState 5))" by code_simp
  have h9: "cfgTranslateUi (config exState)" by code_simp
  have h10: "textData (nodes (uiTextNode exEnv 6 exState) 6) = ''Home''" by code_simp
  note t = keyless_tag_text_falls_through[OF h1 h2 h3 h4 h5 h6 h7]
  from t h8 have t1: "translateTag exEnv 6 exState = (False, exState)" by simp
  from t have t2: "tags (translateNode exEnv 6 exState) = tags exState" by blast
  from t h8 h9 have t3: "translateNode exEnv 6 exState = uiTextNode exEnv 6 exState" by simp
  from t3 h10 have t4: "textData (nodes (translateNode exEnv 6 exState) 6) = ''Home''" by simp
  let ?ac = "updNode 5 (\<lambda>e. e\<lparr>classList := [''gt'', ''auto-complete-text'']\<rparr>) exState"
  have g1: "isText (nodes ?ac 6)" by code_simp
  have g2: "nodeName (nodes ?ac 6) = ''#text''" by code_simp
  have g3: "\<not> skipped (nodes ?ac) 6" by code_simp
  have g4: "parentElement (nodes ?ac) 6 = Some 5" by code_simp
  have g5: "isTagContainer (nodes ?ac) (Some 5) \<or>
    isTagContainer (nodes ?ac) (parentElement (nodes ?ac) 5)" by code_simp
  have g6: "\<not> hasAttribute (nodes ?ac 5) ATTR" by code_simp
  have g7: "fullKeyCandidate exEnv (reflected (nodes ?ac 5) ''title'') (reflected (nodes ?ac 5) ''id'')
     \<in> {None, Some []}" by code_simp
  have g8: "''auto-complete-text'' \<in> set (classList (nodes ?ac 5))" by code_simp
  note u = keyless_tag_text_falls_through[OF g1 g2 g3 g4 g5 g6 g7]
  from u g8 have u1: "translateTag exEnv 6 ?ac = (True, ?ac)" by simp
  from u g8 have u3: "translateNode exEnv 6 ?ac = ?ac" by simp
  show ?thesis
    using h1 h2 h3 h4 h5 h6 h7 h8 h9 t1 t2 t3 t4 g8 u1 u3 by blast
qed

section \<open>Liveness and the refresh pass\<close>

text \<open>
  Claim C2 as stated fails on the page of the examples: the link 9 lies in element 8, which is not
  in the document, so 9 is not attached to the document; the entry of 9 is alive all the
  same, the refresh pass keeps it and rewrites the content of 9.
\<close>

theorem alive_without_document:
  "alive (exState\<lparr>tags := [exTag 9]\<rparr>) (exTag 9) \<and>
   \<not> attached 13 (nodes (exState\<lparr>tags := [exTag 9]\<rparr>)) (parent (exTag 9)) \<and>
   exTag 9 \<in> set (tags (translateTags exEnv (exState\<lparr>tags := [exTag 9]\<rparr>))) \<and>
   inner (nodes (exState\<lparr>tags := [exTag 9]\<rparr>) 9) = FromChildren \<and>
   inner (nodes (translateTags exEnv (exState\<lparr>tags := [exTag 9]\<rparr>)) 9) = InnerHTML ''neko''"
  by code_simp

text \<open>
  Claim C2, amended. An entry is alive exactly when its owning element has a parent
  that is an element, and the refresh pass keeps exactly the alive entries. When the
  owning element has no parent element: the entry is not alive, \<^verbatim>\<open>translate()\<close>
  returns at once and changes nothing whatever the dictionary is, the refresh pass is the
  pass over the working set without the entry (so no lookup is made for it), the entry is
  gone from the working set afterwards, and, the owners of the tracked entries being
  elements, its owning element is as it was.
\<close>

theorem dead_entry_dropped:
  "(alive s t \<longleftrightarrow>
      (\<exists>p. parentNode (nodes s (parent t)) = Some p \<and> nodeType (nodes s p) = ELEMENT_NODE)) \<and>
   tags (translateTags E s) = filter (alive s) (tags s) \<and>
   (parentElement (nodes s) (parent t) = None \<longrightarrow>
      \<not> alive s t \<and>
      translate E t s = (True, s) \<and>
      translate E t (s\<lparr>tagMap := m\<rparr>) = (True, s\<lparr>tagMap := m\<rparr>) \<and>
      translateTags E s = translateTags E (s\<lparr>tags := removeAll t (tags s)\<rparr>) \<and>
      t \<notin> set (tags (translateTags E s)) \<and>
      ((\<forall>u \<in> set (tags s). nodeType (nodes s (parent u)) = ELEMENT_NODE) \<longrightarrow>
         nodes (translateTags E s) (parent t) = nodes s (parent t)))"
proof -
  have iff: "alive s t \<longleftrightarrow>
      (\<exists>p. parentNode (nodes s (parent t)) = Some p \<and> nodeType (nodes s p) = ELEMENT_NODE)"
    by (auto simp: alive_def parentElement_def split: option.splits)
  have kept: "tags (translateTags E s) = filter (alive s) (tags s)"
    by (simp add: translateTags_service)
  have rest: "\<not> alive s t \<and>
      translate E t s = (True, s) \<and>
      translate E t (s\<lparr>tagMap := m\<rparr>) = (True, s\<lparr>tagMap := m\<rparr>) \<and>
      translateTags E s = translateTags E (s\<lparr>tags := removeAll t (tags s)\<rparr>) \<and>
      t \<notin> set (tags (translateTags E s)) \<and>
      ((\<forall>u \<in> set (tags s). nodeType (nodes s (parent u)) = ELEMENT_NODE) \<longrightarrow>
         nodes (translateTags E s) (parent t) = nodes s (parent t))"
    if none: "parentElement (nodes s) (parent t) = None"
  proof -
    have dead: "\<not> alive s t" using none by (simp add: alive_def)
    have dead': "\<not> alive (s\<lparr>tagMap := m\<rparr>) t" using none by (simp add: alive_def)
    let ?live = "filter (alive s) (tags s)"
    have keep: "nodes (translateTags E s) (parent t) = nodes s (parent t)"
      if elems: "\<forall>u \<in> set (tags s). nodeType (nodes s (parent u)) = ELEMENT_NODE"
    proof -
      have d: "parentElement (nodes (s\<lparr>tags := ?live\<rparr>)) (parent t) = None"
        using none by simp
      have e: "\<forall>u \<in> set ?live. nodeType (nodes (s\<lparr>tags := ?live\<rparr>) (parent u)) = ELEMENT_NODE"
        using elems by simp
      show ?thesis
        using fold_translate_keeps_dead[OF d e, of E] by (simp add: translateTags_def Let_def)
    qed
    have gone: "t \<notin> set (tags (translateTags E s))"
      using dead by (simp add: translateTags_service)
    show ?thesis
      using dead keep gone translate_dead[OF dead, of E] translate_dead[OF dead', of E]
        translateTags_without_dead[OF dead, of E]
      by blast
  qed
  show ?thesis using iff kept rest by blast
qed

theorem dead_entry_dropped_witness:
  "alive (exState\<lparr>tags := [exTag 3, exTag 8]\<rparr>) (exTag 3) \<and>
   parentNode (nodes (exState\<lparr>tags := [exTag 3, exTag 8]\<rparr>) (parent (exTag 3))) = Some 2 \<and>
   nodeType (nodes (exState\<lparr>tags := [exTag 3, exTag 8]\<rparr>) 2) = ELEMENT_NODE \<and>
   parentElement (nodes (exState\<lparr>tags := [exTag 3, exTag 8]\<rparr>)) (parent (exTag 8)) = None \<and>
   \<not> alive (exState\<lparr>tags := [exTag 3, exTag 8]\<rparr>) (exTag 8) \<and>
   tags (exState\<lparr>tags := [exTag 3, exTag 8]\<rparr>) = [exTag 3, exTag 8] \<and>
   nodeType (nodes (exState\<lparr>tags := [exTag 3, exTag 8]\<rparr>) (parent (exTag 3))) = ELEMENT_NODE \<and>
   nodeType (nodes (exState\<lparr>tags := [exTag 3, exTag 8]\<rparr>) (parent (exTag 8))) = ELEMENT_NODE \<and>
   tags (translateTags exEnv (exState\<lparr>tags := [exTag 3, exTag 8]\<rparr>)) = [exTag 3] \<and>
   inner (nodes (translateTags exEnv (exState\<lparr>tags := [exTag 3, exTag 8]\<rparr>)) 3) = InnerHTML ''neko'' \<and>
   translate exEnv (exTag 8) (exState\<lparr>tags := [exTag 3, exTag 8]\<rparr>) =
     (True, exState\<lparr>tags := [exTag 3, exTag 8]\<rparr>) \<and>
   nodes (translateTags exEnv (exState\<lparr>tags := [exTag 3, exTag 8]\<rparr>)) (parent (exTag 8)) =
     nodes (exState\<lparr>tags := [exTag 3, exTag 8]\<rparr>) (parent (exTag 8))"
proof -
  let ?s = "exState\<lparr>tags := [exTag 3, exTag 8]\<rparr>"
  have a3: "parentNode (nodes ?s (parent (exTag 3))) = Some 2" by code_simp
  have a2: "nodeType (nodes ?s 2) = ELEMENT_NODE" by code_simp
  have h2: "parentElement (nodes ?s) (parent (exTag 8)) = None" by code_simp
  have e3: "nodeType (nodes ?s (parent (exTag 3))) = ELEMENT_NODE" by code_simp
  have e8: "nodeType (nodes ?s (parent (exTag 8))) = ELEMENT_NODE" by code_simp
  have ts: "tags ?s = [exTag 3, exTag 8]" by simp
  have h3: "\<forall>u \<in> set (tags ?s). nodeType (nodes ?s (parent u)) = ELEMENT_NODE"
    using e3 e8 by simp
  have i3: "inner (nodes (translateTags exEnv ?s) 3) = InnerHTML ''neko''" by code_simp
  have neq: "exTag 3 \<noteq> exTag 8" by (simp add: exTag_def)
  note live = dead_entry_dropped[of ?s "exTag 3" exEnv None]
  note dead = dead_entry_dropped[of ?s "exTag 8" exEnv None]
  from live a3 a2 have l1: "alive ?s (exTag 3)" by blast
  from dead h2 have d1: "\<not> alive ?s (exTag 8)" by blast
  from dead l1 d1 have d2: "tags (translateTags exEnv ?s) = [exTag 3]" by simp
  from dead h2 have d3: "translate exEnv (exTag 8) ?s = (True, ?s)" by blast
  from dead h2 h3 have d4: "nodes (translateTags exEnv ?s) (parent (exTag 8)) = nodes ?s (parent (exTag 8))"
    by blast
  show ?thesis
    using a3 a2 h2 e3 e8 ts i3 l1 d1 d2 d3 d4 by blast
qed

section \<open>Configuration changes\<close>

text \<open>
  Claim C3 as stated fails when the tag dictionary is not loaded: the handler then skips
  the refresh pass. With the entries of 3 (alive) and 8 (not alive) tracked and no
  dictionary, a change that disables \<^verbatim>\<open>translateTag\<close> leaves both entries in the
  working set and the content of 3 untouched, where \<^verbatim>\<open>translate()\<close> on the entry
  of 3 would have written the original text.
\<close>

theorem config_change_without_dictionary:
  "alive (exState\<lparr>tagMap := None, tags := [exTag 3, exTag 8]\<rparr>) (exTag 3) \<and>
   \<not> alive (exState\<lparr>tagMap := None, tags := [exTag 3, exTag 8]\<rparr>) (exTag 8) \<and>
   tags (onConfig exEnv (Some (exConfig\<lparr>cfgTranslateTag := False\<rparr>))
           (exState\<lparr>tagMap := None, tags := [exTag 3, exTag 8]\<rparr>)) = [exTag 3, exTag 8] \<and>
   inner (nodes (onConfig exEnv (Some (exConfig\<lparr>cfgTranslateTag := False\<rparr>))
                   (exState\<lparr>tagMap := None, tags := [exTag 3, exTag 8]\<rparr>)) 3) = FromChildren \<and>
   inner (nodes (snd (translate exEnv (exTag 3)
                   (exState\<lparr>tagMap := None, tags := [exTag 3, exTag 8],
                            config := exConfig\<lparr>cfgTranslateTag := False\<rparr>\<rparr>))) 3) = InnerText ''catgirl''"
  by code_simp

text \<open>
  Claim C3, amended. A notification without a new value changes nothing. A notification
  with a new value replaces the configuration, stores it and recomputes the class list of
  the body element when there is one. Then, if the tag dictionary is loaded, the working
  set becomes the entries that are alive and \<^verbatim>\<open>translate()\<close> runs on each of
  them in turn; if it is not loaded, no entry is translated or dropped.
\<close>

theorem config_change_refresh:
  "onConfig E None s = s \<and>
   config (onConfig E (Some c) s) = c \<and>
   storedConfig (onConfig E (Some c) s) = Some c \<and>
   (bodyRef s = Some b \<longrightarrow>
      classList (nodes (onConfig E (Some c) s) b) =
      classList (nodes (setBodyAttrs E b (s\<lparr>config := c\<rparr>)) b)) \<and>
   (let s1 = s\<lparr>config := c, storedConfig := Some c\<rparr>;
        s2 = (case bodyRef s of None \<Rightarrow> s1 | Some b \<Rightarrow> setBodyAttrs E b s1);
        live = filter (alive s) (tags s)
    in (tagMap s \<noteq> None \<longrightarrow>
          tags (onConfig E (Some c) s) = live \<and>
          onConfig E (Some c) s =
            fold (\<lambda>t st. snd (translate E t st)) live (s2\<lparr>tags := live\<rparr>)) \<and>
       (tagMap s = None \<longrightarrow> onConfig E (Some c) s = s2))"
proof -
  let ?s1 = "s\<lparr>config := c, storedConfig := Some c\<rparr>"
  let ?s2 = "case bodyRef s of None \<Rightarrow> ?s1 | Some b \<Rightarrow> setBodyAttrs E b ?s1"
  let ?live = "filter (alive s) (tags s)"
  have s2: "sameService ?s1 ?s2"
    by (simp add: sameService_setBodyAttrs split: option.splits)
  have al: "alive ?s2 = alive s"
    by (simp add: alive_setBodyAttrs alive_config split: option.splits)
  have eq: "onConfig E (Some c) s = (if tagMap s \<noteq> None then translateTags E ?s2 else ?s2)"
    using s2 by (simp add: onConfig_def updateConfig_def Let_def sameService_def)
  have a: "config (onConfig E (Some c) s) = c \<and> storedConfig (onConfig E (Some c) s) = Some c"
    unfolding eq using s2 by (simp add: translateTags_service translateTags_stored sameService_def)
  have b: "classList (nodes (onConfig E (Some c) s) b) =
      classList (nodes (setBodyAttrs E b (s\<lparr>config := c\<rparr>)) b)" if "bodyRef s = Some b"
    unfolding eq using that by (simp add: translateTags_classList setBodyAttrs_classList_config)
  have tg: "tags ?s2 = tags s" using s2 by (simp add: sameService_def)
  have f: "translateTags E ?s2 = fold (\<lambda>t st. snd (translate E t st)) ?live (?s2\<lparr>tags := ?live\<rparr>)"
    unfolding translateTags_def Let_def al tg ..
  have g: "tags (translateTags E ?s2) = ?live"
    using translateTags_service[of E ?s2] al tg by simp
  show ?thesis
    using a b eq f g by (simp add: onConfig_def Let_def)
qed

theorem config_change_refresh_witness:
  "tagMap (exState\<lparr>tags := [exTag 3, exTag 8]\<rparr>) \<noteq> None \<and>
   bodyRef (exState\<lparr>tags := [exTag 3, exTag 8]\<rparr>) = Some 1 \<and>
   filter (alive (exState\<lparr>tags := [exTag 3, exTag 8]\<rparr>)) (tags (exState\<lparr>tags := [exTag 3, exTag 8]\<rparr>))
     = [exTag 3] \<and>
   tags (onConfig exEnv (Some (exConfig\<lparr>cfgTranslateTag := False\<rparr>))
           (exState\<lparr>tags := [exTag 3, exTag 8]\<rparr>)) = [exTag 3] \<and>
   inner (nodes (onConfig exEnv (Some (exConfig\<lparr>cfgTranslateTag := False\<rparr>))
                   (exState\<lparr>tags := [exTag 3, exTag 8]\<rparr>)) 3) = InnerText ''catgirl'' \<and>
   attrs (nodes (onConfig exEnv (Some (exConfig\<lparr>cfgTranslateTag := False\<rparr>))
                   (exState\<lparr>tags := [exTag 3, exTag 8]\<rparr>)) 3) ''lang'' = Some ''en'' \<and>
   inner (nodes (onConfig exEnv (Some exConfig) (exState\<lparr>tags := [exTag 3, exTag 8]\<rparr>)) 3) =
     InnerHTML ''neko'' \<and>
   classList (nodes (onConfig exEnv (Some (exConfig\<lparr>cfgTranslateTag := False\<rparr>))
                       (exState\<lparr>tags := [exTag 3, exTag 8]\<rparr>)) 1) = [''eh'', ''ehs-image-level-0''] \<and>
   tagMap (exState\<lparr>tagMap := None, tags := [exTag 3, exTag 8]\<rparr>) = None \<and>
   onConfig exEnv (Some exConfig) (exState\<lparr>tagMap := None, tags := [exTag 3, exTag 8]\<rparr>) =
     setBodyAttrs exEnv 1
       (exState\<lparr>tagMap := None, tags := [exTag 3, exTag 8], config := exConfig, storedConfig := Some exConfig\<rparr>)"
proof -
  let ?s = "exState\<lparr>tags := [exTag 3, exTag 8]\<rparr>"
  let ?off = "exConfig\<lparr>cfgTranslateTag := False\<rparr>"
  let ?n = "exState\<lparr>tagMap := None, tags := [exTag 3, exTag 8]\<rparr>"
  let ?pass = "\<lambda>c. fold (\<lambda>t st. snd (translate exEnv t st)) [exTag 3]
      ((setBodyAttrs exEnv 1 (?s\<lparr>config := c, storedConfig := Some c\<rparr>))\<lparr>tags := [exTag 3]\<rparr>)"
  have h1: "tagMap ?s \<noteq> None" by (simp add: exState_def)
  have h2: "bodyRef ?s = Some 1" by (simp add: exState_def)
  have h3: "filter (alive ?s) (tags ?s) = [exTag 3]" by code_simp
  have h4: "tagMap ?n = None" by simp
  have h5: "bodyRef ?n = Some 1" by (simp add: exState_def)
  have v1: "inner (nodes (?pass ?off) 3) = InnerText ''catgirl''" by code_simp
  have v2: "attrs (nodes (?pass ?off) 3) ''lang'' = Some ''en''" by code_simp
  have v3: "inner (nodes (?pass exConfig) 3) = InnerHTML ''neko''" by code_simp
  have v4: "classList (nodes (setBodyAttrs exEnv 1 (?s\<lparr>config := ?off\<rparr>)) 1) = [''eh'', ''ehs-image-level-0'']"
    by code_simp
  note t1 = config_change_refresh[of exEnv ?s ?off 1, unfolded Let_def h3 h2 option.case]
  note t2 = config_change_refresh[of exEnv ?s exConfig 1, unfolded Let_def h3 h2 option.case]
  note t3 = config_change_refresh[of exEnv ?n exConfig 1, unfolded Let_def h5 option.case]
  from t1 h1 have e1: "onConfig exEnv (Some ?off) ?s = ?pass ?off" by blast
  from t2 h1 have e2: "onConfig exEnv (Some exConfig) ?s = ?pass exConfig" by blast
  from t1 h1 have r0: "tags (onConfig exEnv (Some ?off) ?s) = [exTag 3]" by blast
  have r1: "inner (nodes (onConfig exEnv (Some ?off) ?s) 3) = InnerText ''catgirl''"
    unfolding e1 by (rule v1)
  have r2: "attrs (nodes (onConfig exEnv (Some ?off) ?s) 3) ''lang'' = Some ''en''"
    unfolding e1 by (rule v2)
  have r3: "inner (nodes (onConfig exEnv (Some exConfig) ?s) 3) = InnerHTML ''neko''"
    unfolding e2 by (rule v3)
  from t1 have "classList (nodes (onConfig exEnv (Some ?off) ?s) 1) =
      classList (nodes (setBodyAttrs exEnv 1 (?s\<lparr>config := ?off\<rparr>)) 1)" by blast
  then have r4: "classList (nodes (onConfig exEnv (Some ?off) ?s) 1) = [''eh'', ''ehs-image-level-0'']"
    unfolding v4 .
  from t3 h4 have r5: "onConfig exEnv (Some exConfig) ?n =
     setBodyAttrs exEnv 1 (?n\<lparr>config := exConfig, storedConfig := Some exConfig\<rparr>)"
    by blast
  show ?thesis
    using h1 h2 h3 h4 r0 r1 r2 r3 r4 r5 by blast
qed

end
